theory Spec2Isabelle
  imports Complex_Main "HOL-Library.AList"
begin

section \<open>JavaScript values\<close>

text \<open>
  The payload of a window message is a structured-clone or JSON value. Numbers are
  rationals (every finite double is one; \<open>-0\<close> and \<open>0\<close> are both \<open>JNum 0\<close>: they are
  equally falsy and equal as Map keys) and \<open>NaN\<close>. An object is the association list of
  its own properties, read with \<open>map_of\<close>.
\<close>

datatype jsval =
    JUndefined
  | JNull
  | JBool bool
  | JNum rat
  | JNaN
  | JStr string
  | JArr "jsval list"
  | JObj "(string \<times> jsval) list"

text \<open>Truthiness, as \<open>if (v)\<close>, \<open>v || w\<close> and \<open>!!v\<close> read a value.\<close>

fun truthy :: "jsval \<Rightarrow> bool" where
  "truthy JUndefined = False"
| "truthy JNull = False"
| "truthy (JBool b) = b"
| "truthy (JNum q) = (q \<noteq> 0)"
| "truthy JNaN = False"
| "truthy (JStr s) = (s \<noteq> [])"
| "truthy (JArr xs) = True"
| "truthy (JObj kvs) = True"

text \<open>\<open>typeof v === 'object'\<close>: true of objects, arrays and \<open>null\<close>.\<close>

fun typeof_object :: "jsval \<Rightarrow> bool" where
  "typeof_object JNull = True"
| "typeof_object (JArr xs) = True"
| "typeof_object (JObj kvs) = True"
| "typeof_object v = False"

text \<open>
  The property read \<open>v.k\<close>, for the names the handler reads (\<open>isRN\<close>, \<open>method\<close>,
  \<open>params\<close>, \<open>publicKey\<close>, \<open>autoApprove\<close>, \<open>result\<close>, \<open>error\<close>, \<open>id\<close>): a TypeError
  (\<open>None\<close>) on \<open>undefined\<close> and \<open>null\<close>, the property or \<open>undefined\<close> on an object, and
  \<open>undefined\<close> on every other value, whose prototypes have none of these names.
\<close>

fun getprop :: "jsval \<Rightarrow> string \<Rightarrow> jsval option" where
  "getprop JUndefined k = None"
| "getprop JNull k = None"
| "getprop (JObj kvs) k = Some (case map_of kvs k of None \<Rightarrow> JUndefined | Some v \<Rightarrow> v)"
| "getprop v k = Some JUndefined"

section \<open>The platform\<close>

datatype error =
    InvalidProvider
  | InvalidUrl
  | InvalidPublicKey
  | InvalidArgument
  | NotConnected
  | TypeError
  | PostMessageFailed

text \<open>
  A \<open>PublicKey\<close> of the web3 library holds a number, and \<open>equals\<close> compares the
  numbers.
\<close>

type_synonym pubkey = nat

text \<open>
  A parsed \<open>URL\<close>: its \<open>origin\<close>, the text up to the end of the path, the query with
  its leading question mark (empty when there is none) and the fragment without its hash
  sign (\<open>None\<close> when there is none).
\<close>

record url =
  url_origin :: string
  url_upto_path :: string
  search :: string
  fragment :: "string option"

definition url_toString :: "url \<Rightarrow> string" where
  "url_toString u =
     url_upto_path u @ search u @ (case fragment u of None \<Rightarrow> [] | Some f \<Rightarrow> CHR ''#'' # f)"

text \<open>
  What the code takes from the browser and the libraries: \<open>window.location.origin\<close>,
  the outcome of the user-agent test of \<open>_handleConnect\<close>, \<open>JSON.parse\<close> (\<open>None\<close> when
  it throws), the \<open>PublicKey\<close> constructor (\<open>None\<close> when it throws) and the \<open>URL\<close>
  constructor (\<open>None\<close> when it throws).
\<close>

record platform =
  location_origin :: string
  isUIWebView :: bool
  JSON_parse :: "string \<Rightarrow> jsval option"
  new_PublicKey :: "jsval \<Rightarrow> pubkey option"
  new_URL :: "string \<Rightarrow> url option"

subsection \<open>\<open>URLSearchParams.toString\<close>\<close>

text \<open>
  The \<open>application/x-www-form-urlencoded\<close> serialiser over the bytes of a string: a
  letter, a digit and \<open>*-._\<close> stay, a space is a plus sign, every other byte is a
  percent sign and two upper-case hexadecimal digits.
\<close>

definition hex_digit :: "nat \<Rightarrow> char" where
  "hex_digit n = ''0123456789ABCDEF'' ! (n mod 16)"

definition urlencoded_unreserved :: "char \<Rightarrow> bool" where
  "urlencoded_unreserved c =
     (c \<in> set ''ABCDEFGHIJKLMNOPQRSTUVWXYZabcdefghijklmnopqrstuvwxyz0123456789*-._'')"

definition urlencode_byte :: "char \<Rightarrow> string" where
  "urlencode_byte c =
     (if urlencoded_unreserved c then [c]
      else if c = CHR '' '' then ''+''
      else [CHR ''%'', hex_digit (of_char c div 16), hex_digit (of_char c mod 16)])"

definition urlencode :: "string \<Rightarrow> string" where
  "urlencode s = concat (map urlencode_byte s)"

fun URLSearchParams_toString :: "(string \<times> string) list \<Rightarrow> string" where
  "URLSearchParams_toString [] = []"
| "URLSearchParams_toString [(k, v)] = urlencode k @ ''='' @ urlencode v"
| "URLSearchParams_toString ((k, v) # kvs) =
     urlencode k @ ''='' @ urlencode v @ ''&'' @ URLSearchParams_toString kvs"

text \<open>
  The setter \<open>url.hash = v\<close>: an empty value clears the fragment, a leading hash sign
  is dropped. (The setter also percent-encodes spaces, quotes, angle brackets and
  backticks; a form-urlencoded value has none.)
\<close>

definition set_hash :: "string \<Rightarrow> url \<Rightarrow> url" where
  "set_hash v u =
     (if v = [] then u\<lparr>fragment := None\<rparr>
      else if hd v = CHR ''#'' then u\<lparr>fragment := Some (tl v)\<rparr>
      else u\<lparr>fragment := Some v\<rparr>)"

section \<open>The session\<close>

text \<open>
  A window: the page's own (\<open>window\<close>) or another browsing context. The receivers of
  \<open>addEventListener\<close> are the window and the document.
\<close>

datatype winref = Window | OtherWindow nat

datatype receiver = WindowReceiver | DocumentReceiver

text \<open>
  A promise of \<open>_sendRequest\<close>: pending, resolved with a value or rejected with a
  reason. The only continuation that touches the session is the rest of \<open>disconnect\<close>
  after its \<open>await\<close>; \<open>awaited_by_disconnect\<close> marks the promise it waits for.
\<close>

datatype rejection = ErrorOf jsval | WalletDisconnected | Thrown error

datatype settlement = Pending | Resolved jsval | Rejected rejection

record promise =
  settled :: settlement
  awaited_by_disconnect :: bool

text \<open>What the session does to the outside, in order.\<close>

datatype effect =
    EmitConnect pubkey
  | EmitDisconnect
  | AddListeners receiver
  | RemoveListeners receiver
  | SetWindowName
  | OpenPopup string
  | ClosePopup winref
  | FocusPopup winref
  | PostToInjected jsval
  | PostToPopup winref jsval string

text \<open>
  The fields of \<open>Wallet\<close>, then the world around it: the promises created so far
  (\<open>responsePromises\<close> holds indices into them, standing for the pair of callbacks),
  the microtasks waiting to run, whether the handlers are registered on the window and on
  the document (\<open>message\<close> and \<open>beforeunload\<close> are always registered and removed
  together), and the effects so far. \<open>injectedProvider\<close> says whether the field holds
  the provider object; \<open>responsePromises\<close> is a \<open>Map\<close>, kept in insertion order.
\<close>

record wallet =
  injectedProvider :: bool
  providerUrl :: "url option"
  network :: string
  publicKey :: "pubkey option"
  autoApprove :: bool
  popup :: "winref option"
  handlerAdded :: bool
  nextRequestId :: nat
  responsePromises :: "(nat \<times> nat) list"
  promises :: "promise list"
  resumptions :: nat
  window_listening :: bool
  document_listening :: bool
  trace :: "effect list"

subsection \<open>The constructor\<close>

text \<open>
  The argument \<open>provider\<close>: an object (with or without a callable \<open>postMessage\<close>),
  a string, or anything else (\<open>null\<close>, a number, a function, ...).
\<close>

datatype provider = ProviderObject bool | ProviderString string | ProviderOther

fun isString :: "provider \<Rightarrow> bool" where
  "isString (ProviderString s) = True"
| "isString a = False"

fun isObject :: "provider \<Rightarrow> bool" where
  "isObject (ProviderObject f) = True"
| "isObject a = False"

fun has_postMessage_function :: "provider \<Rightarrow> bool" where
  "has_postMessage_function (ProviderObject f) = f"
| "has_postMessage_function a = False"

definition isInjectedProvider :: "provider \<Rightarrow> bool" where
  "isInjectedProvider a = (isObject a \<and> has_postMessage_function a)"

definition fresh_wallet :: "bool \<Rightarrow> url option \<Rightarrow> string \<Rightarrow> wallet" where
  "fresh_wallet injected u net =
     \<lparr> injectedProvider = injected, providerUrl = u, network = net, publicKey = None,
       autoApprove = False, popup = None, handlerAdded = False, nextRequestId = 1,
       responsePromises = [], promises = [], resumptions = 0,
       window_listening = False, document_listening = False, trace = [] \<rparr>"

text \<open>
  A string is never an injected provider, so the string of the second branch is read by
  a \<open>case\<close> whose other branch is never taken.
\<close>

definition new_Wallet :: "platform \<Rightarrow> provider \<Rightarrow> string \<Rightarrow> error + wallet" where
  "new_Wallet pf provider net =
     (if isInjectedProvider provider then Inr (fresh_wallet True None net)
      else if isString provider then
        (case provider of
           ProviderString s \<Rightarrow>
             (case new_URL pf s of
                None \<Rightarrow> Inl InvalidUrl
              | Some u \<Rightarrow>
                  Inr (fresh_wallet False
                    (Some (set_hash
                       (URLSearchParams_toString
                          [(''origin'', location_origin pf), (''network'', net)]) u)) net))
         | _ \<Rightarrow> Inl InvalidProvider)
      else Inl InvalidProvider)"

subsection \<open>Promises and the correlation table\<close>

definition new_promise :: "wallet \<Rightarrow> nat \<times> wallet" where
  "new_promise s =
     (length (promises s),
      s\<lparr>promises := promises s @ [\<lparr>settled = Pending, awaited_by_disconnect = False\<rparr>]\<rparr>)"

text \<open>
  The callbacks of a promise settle it once: on a settled promise they do nothing.
  Resolving the promise that a \<open>disconnect\<close> awaits queues the rest of that
  \<open>disconnect\<close> as a microtask; rejecting it makes that \<open>disconnect\<close> fail, which
  changes nothing in the session.
\<close>

definition resolve :: "nat \<Rightarrow> jsval \<Rightarrow> wallet \<Rightarrow> wallet" where
  "resolve p v s =
     (if p < length (promises s) \<and> settled (promises s ! p) = Pending then
        s\<lparr>promises := (promises s)[p := (promises s ! p)\<lparr>settled := Resolved v\<rparr>],
          resumptions :=
            (if awaited_by_disconnect (promises s ! p) then resumptions s + 1
             else resumptions s)\<rparr>
      else s)"

definition reject :: "nat \<Rightarrow> rejection \<Rightarrow> wallet \<Rightarrow> wallet" where
  "reject p r s =
     (if p < length (promises s) \<and> settled (promises s ! p) = Pending then
        s\<lparr>promises := (promises s)[p := (promises s ! p)\<lparr>settled := Rejected r\<rparr>]\<rparr>
      else s)"

text \<open>
  \<open>Map.get\<close> with the key \<open>data.id\<close>: the keys are request ids, so only a number
  equal to one of them finds an entry.
\<close>

fun Map_get :: "(nat \<times> 'a) list \<Rightarrow> jsval \<Rightarrow> 'a option" where
  "Map_get [] v = None"
| "Map_get ((k, x) # kvs) v = (if v = JNum (of_nat k) then Some x else Map_get kvs v)"

subsection \<open>The getter \<open>connected\<close> and \<open>_sendRequest\<close>\<close>

text \<open>The getter \<open>connected\<close>.\<close>

definition wallet_connected :: "wallet \<Rightarrow> bool" where
  "wallet_connected s = (publicKey s \<noteq> None)"

text \<open>
  \<open>++this._nextRequestId\<close> on a double that holds a positive integer: exact below
  \<open>2 ^ 53\<close>; at \<open>2 ^ 53\<close> the sum is not representable and rounds back to \<open>2 ^ 53\<close>.
\<close>

definition js_increment :: "nat \<Rightarrow> nat" where
  "js_increment n = (if n < 2 ^ 53 then n + 1 else n)"

definition request_message :: "nat \<Rightarrow> string \<Rightarrow> (string \<times> jsval) list \<Rightarrow> jsval" where
  "request_message requestId mth params =
     JObj [(''jsonrpc'', JStr ''2.0''), (''id'', JNum (of_nat requestId)),
           (''method'', JStr mth), (''params'', JObj params)]"

text \<open>The object \<open>{ network: this._network, ...params }\<close>.\<close>

definition with_network :: "string \<Rightarrow> (string \<times> jsval) list \<Rightarrow> (string \<times> jsval) list" where
  "with_network net params = fold (\<lambda>(k, v). AList.update k v) params [(''network'', JStr net)]"

text \<open>
  The body of the promise of \<open>_sendRequest\<close>. \<open>post_returns\<close> says whether the
  transport's \<open>postMessage\<close> returns (rather than throws); an exception in the body
  rejects the promise, after the entry was stored.
\<close>

definition executor ::
  "bool \<Rightarrow> nat \<Rightarrow> nat \<Rightarrow> string \<Rightarrow> (string \<times> jsval) list \<Rightarrow> wallet \<Rightarrow> wallet" where
  "executor post_returns p requestId mth params s =
     (let s1 = s\<lparr>responsePromises := AList.update requestId p (responsePromises s)\<rparr> in
      if injectedProvider s1 then
        (if post_returns then
           s1\<lparr>trace := trace s1 @
             [PostToInjected (request_message requestId mth (with_network (network s1) params))]\<rparr>
         else reject p (Thrown PostMessageFailed) s1)
      else
        (case popup s1 of
           None \<Rightarrow> reject p (Thrown TypeError) s1
         | Some w \<Rightarrow>
             (case providerUrl s1 of
                None \<Rightarrow> reject p (Thrown TypeError) s1
              | Some u \<Rightarrow>
                  if post_returns then
                    (let s2 = s1\<lparr>trace := trace s1 @
                           [PostToPopup w (request_message requestId mth params) (url_origin u)]\<rparr>
                     in if \<not> autoApprove s2 then s2\<lparr>trace := trace s2 @ [FocusPopup w]\<rparr>
                        else s2)
                  else reject p (Thrown PostMessageFailed) s1)))"

text \<open>
  \<open>_sendRequest\<close>: \<open>Inl\<close> when it throws before the promise exists, otherwise the
  index of the promise it returns.
\<close>

definition sendRequest ::
  "bool \<Rightarrow> string \<Rightarrow> (string \<times> jsval) list \<Rightarrow> wallet \<Rightarrow> (error + nat) \<times> wallet" where
  "sendRequest post_returns mth params s =
     (if mth \<noteq> ''connect'' \<and> \<not> wallet_connected s then (Inl NotConnected, s)
      else
        (let requestId = nextRequestId s;
             s1 = s\<lparr>nextRequestId := js_increment (nextRequestId s)\<rparr>;
             (p, s2) = new_promise s1
         in (Inr p, executor post_returns p requestId mth params s2)))"

subsection \<open>\<open>_handleDisconnect\<close> and \<open>_handleConnect\<close>\<close>

text \<open>
  The \<open>forEach\<close> of \<open>_handleDisconnect\<close>: each entry is deleted, then its promise
  rejected. The keys of a \<open>Map\<close> are distinct, so deleting the entry being visited
  leaves the entries still to visit as they were.
\<close>

fun reject_each :: "(nat \<times> nat) list \<Rightarrow> wallet \<Rightarrow> wallet" where
  "reject_each [] s = s"
| "reject_each ((requestId, p) # rest) s =
     reject_each rest
       (reject p WalletDisconnected
          (s\<lparr>responsePromises := AList.delete requestId (responsePromises s)\<rparr>))"

definition handleDisconnect :: "wallet \<Rightarrow> wallet" where
  "handleDisconnect s =
     (let s1 = (if handlerAdded s then
                  s\<lparr>handlerAdded := False, window_listening := False,
                    trace := trace s @ [RemoveListeners WindowReceiver]\<rparr>
                else s);
          s2 = (if publicKey s1 \<noteq> None then
                  s1\<lparr>publicKey := None, trace := trace s1 @ [EmitDisconnect]\<rparr>
                else s1)
      in reject_each (responsePromises s2) s2)"

definition add_listeners :: "receiver \<Rightarrow> wallet \<Rightarrow> wallet" where
  "add_listeners r s =
     (case r of
        WindowReceiver \<Rightarrow> s\<lparr>window_listening := True, trace := trace s @ [AddListeners r]\<rparr>
      | DocumentReceiver \<Rightarrow> s\<lparr>document_listening := True, trace := trace s @ [AddListeners r]\<rparr>)"

text \<open>
  \<open>opened\<close> is what \<open>window.open\<close> returns: the new window, or \<open>null\<close> when the
  browser blocks it. The promise returned to the host is not part of the session.
\<close>

definition handleConnect ::
  "platform \<Rightarrow> winref option \<Rightarrow> bool \<Rightarrow> wallet \<Rightarrow> error option \<times> wallet" where
  "handleConnect pf opened post_returns s =
     (let s1 = (if \<not> handlerAdded s then
                  add_listeners (if isUIWebView pf then WindowReceiver else DocumentReceiver)
                    (s\<lparr>handlerAdded := True\<rparr>)
                else s)
      in if injectedProvider s1 then (None, snd (sendRequest post_returns ''connect'' [] s1))
         else
           (let s2 = s1\<lparr>trace := trace s1 @ [SetWindowName]\<rparr> in
            case providerUrl s2 of
              None \<Rightarrow> (Some TypeError, s2)
            | Some u \<Rightarrow>
                (None, s2\<lparr>popup := opened, trace := trace s2 @ [OpenPopup (url_toString u)]\<rparr>)))"

subsection \<open>The public operations\<close>

definition close_popup :: "wallet \<Rightarrow> wallet" where
  "close_popup s =
     (case popup s of None \<Rightarrow> s | Some w \<Rightarrow> s\<lparr>trace := trace s @ [ClosePopup w]\<rparr>)"

definition connect ::
  "platform \<Rightarrow> winref option \<Rightarrow> bool \<Rightarrow> wallet \<Rightarrow> error option \<times> wallet" where
  "connect pf opened post_returns s = handleConnect pf opened post_returns (close_popup s)"

text \<open>
  \<open>disconnect\<close> is an async function: on an injected provider it runs up to its
  \<open>await\<close> and stops there. It fails when \<open>_sendRequest\<close> throws or its promise is
  rejected, and goes on (\<open>disconnect_resume\<close>, run as a microtask) once the promise is
  resolved. \<open>_sendRequest\<close> returns a promise it has just created, so the last
  branch of \<open>await_in_disconnect\<close> (no such promise) is never taken.
\<close>

datatype disconnect_outcome = Completed | Failed rejection | Suspended nat

definition disconnect_resume :: "wallet \<Rightarrow> wallet" where
  "disconnect_resume s = handleDisconnect (close_popup s)"

definition await_in_disconnect :: "nat \<Rightarrow> wallet \<Rightarrow> disconnect_outcome \<times> wallet" where
  "await_in_disconnect p s =
     (if p < length (promises s) then
        (case settled (promises s ! p) of
           Pending \<Rightarrow>
             (Suspended p,
              s\<lparr>promises := (promises s)[p := (promises s ! p)\<lparr>awaited_by_disconnect := True\<rparr>]\<rparr>)
         | Resolved v \<Rightarrow> (Suspended p, s\<lparr>resumptions := resumptions s + 1\<rparr>)
         | Rejected r \<Rightarrow> (Failed r, s))
      else (Suspended p, s))"

definition disconnect :: "bool \<Rightarrow> wallet \<Rightarrow> disconnect_outcome \<times> wallet" where
  "disconnect post_returns s =
     (if injectedProvider s then
        (case sendRequest post_returns ''disconnect'' [] s of
           (Inl e, s1) \<Rightarrow> (Failed (Thrown e), s1)
         | (Inr p, s1) \<Rightarrow> await_in_disconnect p s1)
      else (Completed, disconnect_resume s))"

text \<open>
  The signing operations up to their request; decoding the reply is the host's side.
  \<open>is_bytes\<close> is \<open>data instanceof Uint8Array\<close>; the encoded messages are what the
  codec made of the transactions.
\<close>

definition sign ::
  "bool \<Rightarrow> jsval \<Rightarrow> jsval \<Rightarrow> bool \<Rightarrow> wallet \<Rightarrow> (error + nat) \<times> wallet" where
  "sign is_bytes bytes display post_returns s =
     (if \<not> is_bytes then (Inl InvalidArgument, s)
      else sendRequest post_returns ''sign'' [(''data'', bytes), (''display'', display)] s)"

definition signTransaction :: "string \<Rightarrow> bool \<Rightarrow> wallet \<Rightarrow> (error + nat) \<times> wallet" where
  "signTransaction encoded post_returns s =
     sendRequest post_returns ''signTransaction'' [(''message'', JStr encoded)] s"

definition signAllTransactions ::
  "string list \<Rightarrow> bool \<Rightarrow> wallet \<Rightarrow> (error + nat) \<times> wallet" where
  "signAllTransactions encoded post_returns s =
     sendRequest post_returns ''signAllTransactions''
       [(''messages'', JArr (map JStr encoded))] s"

subsection \<open>\<open>_handleMessage\<close>\<close>

record message_event =
  data :: jsval
  origin :: string
  source :: "winref option"

text \<open>Lines 33 to 38: a string payload is parsed, and kept when parsing throws.\<close>

definition message_data :: "platform \<Rightarrow> message_event \<Rightarrow> jsval" where
  "message_data pf e =
     (case data e of
        JStr t \<Rightarrow> (case JSON_parse pf t of None \<Rightarrow> JStr t | Some v \<Rightarrow> v)
      | d \<Rightarrow> d)"

text \<open>
  The condition of lines 40 to 44, left to right: \<open>Inl\<close> when reading \<open>isRN\<close> of
  \<open>null\<close> or the origin of a missing provider URL throws.
\<close>

definition admits :: "wallet \<Rightarrow> message_event \<Rightarrow> jsval \<Rightarrow> error + bool" where
  "admits s e d =
     (let others =
        (if injectedProvider s \<and> source e = Some Window then Inr True
         else
           (case providerUrl s of
              None \<Rightarrow> Inl TypeError
            | Some u \<Rightarrow> Inr (origin e = url_origin u \<and> source e = popup s)))
      in if typeof_object d then
           (case getprop d ''isRN'' of
              None \<Rightarrow> Inl TypeError
            | Some t \<Rightarrow> if truthy t then Inr True else others)
         else others)"

text \<open>Lines 46 to 54.\<close>

definition on_connected :: "platform \<Rightarrow> jsval \<Rightarrow> wallet \<Rightarrow> error option \<times> wallet" where
  "on_connected pf d s =
     (case getprop d ''params'' of
        None \<Rightarrow> (Some TypeError, s)
      | Some ps \<Rightarrow>
          (case getprop ps ''publicKey'' of
             None \<Rightarrow> (Some TypeError, s)
           | Some k \<Rightarrow>
               (case new_PublicKey pf k of
                  None \<Rightarrow> (Some InvalidPublicKey, s)
                | Some newPublicKey \<Rightarrow>
                    if publicKey s = None \<or> publicKey s \<noteq> Some newPublicKey then
                      (let s1 = (if publicKey s \<noteq> None \<and> publicKey s \<noteq> Some newPublicKey
                                 then handleDisconnect s else s);
                           s2 = s1\<lparr>publicKey := Some newPublicKey\<rparr>
                       in case getprop ps ''autoApprove'' of
                            None \<Rightarrow> (Some TypeError, s2)
                          | Some a \<Rightarrow>
                              (None, s2\<lparr>autoApprove := truthy a,
                                        trace := trace s2 @ [EmitConnect newPublicKey]\<rparr>))
                    else (None, s))))"

text \<open>Lines 57 to 66.\<close>

definition on_response :: "jsval \<Rightarrow> wallet \<Rightarrow> error option \<times> wallet" where
  "on_response d s =
     (case getprop d ''result'' of
        None \<Rightarrow> (Some TypeError, s)
      | Some res \<Rightarrow>
          (case getprop d ''error'' of
             None \<Rightarrow> (Some TypeError, s)
           | Some err \<Rightarrow>
               if truthy res \<or> truthy err then
                 (case getprop d ''id'' of
                    None \<Rightarrow> (Some TypeError, s)
                  | Some i \<Rightarrow>
                      (case Map_get (responsePromises s) i of
                         None \<Rightarrow> (None, s)
                       | Some p \<Rightarrow>
                           if truthy res then (None, resolve p res s)
                           else (None, reject p (ErrorOf err) s)))
               else (None, s)))"

text \<open>
  The handler: the exception it ends with, if any, and the session after it.
\<close>

definition handleMessage ::
  "platform \<Rightarrow> message_event \<Rightarrow> wallet \<Rightarrow> error option \<times> wallet" where
  "handleMessage pf e s =
     (let d = message_data pf e in
      case admits s e d of
        Inl x \<Rightarrow> (Some x, s)
      | Inr False \<Rightarrow> (None, s)
      | Inr True \<Rightarrow>
          (case getprop d ''method'' of
             None \<Rightarrow> (Some TypeError, s)
           | Some m \<Rightarrow>
               if m = JStr ''connected'' then on_connected pf d s
               else if m = JStr ''disconnected'' then (None, handleDisconnect s)
               else on_response d s))"

subsection \<open>The event loop\<close>

text \<open>
  After each task the microtasks run: every queued resumption is the rest of a
  \<open>disconnect\<close>.
\<close>

definition run_microtasks :: "wallet \<Rightarrow> wallet" where
  "run_microtasks s = (disconnect_resume ^^ resumptions s) (s\<lparr>resumptions := 0\<rparr>)"

text \<open>
  A task of the page: a call of a public operation by the host, a \<open>message\<close> event
  dispatched at the window or at the document, or \<open>beforeunload\<close> (dispatched at the
  window). An event reaches the session only where its handlers are registered.
\<close>

datatype task =
    CallConnect "winref option" bool
  | CallDisconnect bool
  | CallSign bool jsval jsval bool
  | CallSignTransaction string bool
  | CallSignAllTransactions "string list" bool
  | MessageAt receiver message_event
  | BeforeUnload bool

definition listening :: "wallet \<Rightarrow> receiver \<Rightarrow> bool" where
  "listening s r =
     (case r of WindowReceiver \<Rightarrow> window_listening s | DocumentReceiver \<Rightarrow> document_listening s)"

fun perform :: "platform \<Rightarrow> task \<Rightarrow> wallet \<Rightarrow> wallet" where
  "perform pf (CallConnect opened ok) s = run_microtasks (snd (connect pf opened ok s))"
| "perform pf (CallDisconnect ok) s = run_microtasks (snd (disconnect ok s))"
| "perform pf (CallSign is_bytes bytes display ok) s =
     run_microtasks (snd (sign is_bytes bytes display ok s))"
| "perform pf (CallSignTransaction encoded ok) s =
     run_microtasks (snd (signTransaction encoded ok s))"
| "perform pf (CallSignAllTransactions encoded ok) s =
     run_microtasks (snd (signAllTransactions encoded ok s))"
| "perform pf (MessageAt r e) s =
     (if listening s r then run_microtasks (snd (handleMessage pf e s)) else s)"
| "perform pf (BeforeUnload ok) s =
     (if window_listening s then run_microtasks (snd (disconnect ok s)) else s)"

definition run :: "platform \<Rightarrow> task list \<Rightarrow> wallet \<Rightarrow> wallet" where
  "run pf tasks s = fold (perform pf) tasks s"

section \<open>Notions used by the properties\<close>

text \<open>The identity a \<open>connected\<close> notification carries, when it decodes.\<close>

definition notified_identity :: "platform \<Rightarrow> jsval \<Rightarrow> pubkey option" where
  "notified_identity pf d =
     (case getprop d ''params'' of
        None \<Rightarrow> None
      | Some ps \<Rightarrow> (case getprop ps ''publicKey'' of None \<Rightarrow> None | Some k \<Rightarrow> new_PublicKey pf k))"

text \<open>The handler run on one message after the other.\<close>

definition handle_all :: "platform \<Rightarrow> message_event list \<Rightarrow> wallet \<Rightarrow> wallet" where
  "handle_all pf es s = fold (\<lambda>e s. snd (handleMessage pf e s)) es s"

text \<open>The events the host has seen: the \<open>emit\<close> calls of the trace.\<close>

definition is_event :: "effect \<Rightarrow> bool" where
  "is_event x = (case x of EmitConnect k \<Rightarrow> True | EmitDisconnect \<Rightarrow> True | _ \<Rightarrow> False)"

definition events :: "wallet \<Rightarrow> effect list" where
  "events s = filter is_event (trace s)"

text \<open>A payload tagged as coming from the React Native embedding: the first disjunct of line 41.\<close>

definition rn_tagged :: "jsval \<Rightarrow> bool" where
  "rn_tagged d =
     (typeof_object d \<and> (case getprop d ''isRN'' of None \<Rightarrow> False | Some t \<Rightarrow> truthy t))"

text \<open>The request ids that have an entry in the correlation table.\<close>

definition live_ids :: "wallet \<Rightarrow> nat set" where
  "live_ids s = fst ` set (responsePromises s)"

text \<open>What a session did since an earlier moment: the effects added to the trace.\<close>

definition effects_since :: "wallet \<Rightarrow> wallet \<Rightarrow> effect list" where
  "effects_since s s' = drop (length (trace s)) (trace s')"

fun is_post :: "effect \<Rightarrow> bool" where
  "is_post (PostToInjected m) = True"
| "is_post (PostToPopup w m t) = True"
| "is_post x = False"

text \<open>
  What an operation may do to the transport and the request ids: keep both, with no
  new entry in the table, or take the next id, with at most that entry added.
\<close>

definition keeps_ids :: "wallet \<Rightarrow> wallet \<Rightarrow> bool" where
  "keeps_ids s s' =
     (injectedProvider s' = injectedProvider s \<and> providerUrl s' = providerUrl s
      \<and> nextRequestId s' = nextRequestId s \<and> live_ids s' \<subseteq> live_ids s)"

definition takes_id :: "wallet \<Rightarrow> wallet \<Rightarrow> bool" where
  "takes_id s s' =
     (injectedProvider s' = injectedProvider s \<and> providerUrl s' = providerUrl s
      \<and> nextRequestId s' = js_increment (nextRequestId s)
      \<and> live_ids s' \<subseteq> insert (nextRequestId s) (live_ids s))"

section \<open>Example sessions and messages\<close>

definition example_url :: url where
  "example_url =
     \<lparr> url_origin = ''https://wallet.example'', url_upto_path = ''https://wallet.example/connect'',
       search = [], fragment = None \<rparr>"

text \<open>
  A platform whose page is \<open>https://app.example\<close>, whose user agent passes the test of
  \<open>_handleConnect\<close>, and whose identity decoder reads a string as its length.
\<close>

definition example_platform :: platform where
  "example_platform =
     \<lparr> location_origin = ''https://app.example'', isUIWebView = True,
       JSON_parse = (\<lambda>t. None),
       new_PublicKey = (\<lambda>v. case v of JStr k \<Rightarrow> Some (length k) | _ \<Rightarrow> None),
       new_URL = (\<lambda>t. if t = ''https://wallet.example/connect'' then Some example_url else None) \<rparr>"

definition example_remote :: wallet where
  "example_remote =
     fresh_wallet False
       (Some (example_url\<lparr>fragment := Some ''origin=https%3A%2F%2Fapp.example&network=mainnet-beta''\<rparr>))
       ''mainnet-beta''"

definition example_injected :: wallet where
  "example_injected = fresh_wallet True None ''mainnet-beta''"

definition connected_notification :: "string \<Rightarrow> jsval" where
  "connected_notification k =
     JObj [(''method'', JStr ''connected''),
           (''params'', JObj [(''publicKey'', JStr k), (''autoApprove'', JBool True)])]"

definition disconnected_notification :: jsval where
  "disconnected_notification = JObj [(''method'', JStr ''disconnected'')]"

definition response :: "rat \<Rightarrow> jsval \<Rightarrow> jsval \<Rightarrow> jsval" where
  "response i res err = JObj [(''id'', JNum i), (''result'', res), (''error'', err)]"

definition from_popup :: "jsval \<Rightarrow> message_event" where
  "from_popup d = \<lparr> data = d, origin = ''https://wallet.example'', source = Some (OtherWindow 1) \<rparr>"

definition from_page :: "jsval \<Rightarrow> message_event" where
  "from_page d = \<lparr> data = d, origin = ''https://app.example'', source = Some Window \<rparr>"

text \<open>
  A session on a URL provider after \<open>connect\<close>, the popup's \<open>connected\<close> notification
  and one \<open>sign\<close> call that is still waiting.
\<close>

definition example_remote_signing :: wallet where
  "example_remote_signing =
     run example_platform
       [CallConnect (Some (OtherWindow 1)) True,
        MessageAt WindowReceiver (from_popup (connected_notification ''abc'')),
        CallSign True (JArr []) (JBool True) True]
       example_remote"

text \<open>
  A session on an injected provider after \<open>connect\<close>, before and after the provider's
  \<open>connected\<close> notification.
\<close>

definition example_injected_connecting :: wallet where
  "example_injected_connecting = run example_platform [CallConnect None True] example_injected"


text \<open>Two messages of a foreign origin: one tagged \<open>isRN\<close>, one a well-formed response.\<close>

definition spoofed_disconnect :: message_event where
  "spoofed_disconnect =
     \<lparr> data = JObj [(''isRN'', JBool True), (''method'', JStr ''disconnected'')],
       origin = ''https://evil.example'', source = None \<rparr>"

definition spoofed_response :: message_event where
  "spoofed_response =
     \<lparr> data = response 1 (JStr ''forged'') JUndefined,
       origin = ''https://evil.example'', source = Some (OtherWindow 2) \<rparr>"

text \<open>A session whose id counter stands at the largest value it can reach.\<close>

definition example_injected_saturated :: wallet where
  "example_injected_saturated = example_injected\<lparr>nextRequestId := 2 ^ 53\<rparr>"

text \<open>
  The injected session after the provider's \<open>disconnected\<close> notification: request 1 was
  rejected and its entry deleted.
\<close>

definition example_injected_disconnected :: wallet where
  "example_injected_disconnected =
     run example_platform
       [CallConnect None True,
        MessageAt WindowReceiver (from_page (connected_notification ''abc'')),
        MessageAt WindowReceiver (from_page disconnected_notification)]
       example_injected"

section \<open>Facts about the operations\<close>

subsection \<open>Unfolding the model\<close>

lemmas model_defs =
  run_def connect_def close_popup_def handleConnect_def add_listeners_def sendRequest_def
  new_promise_def executor_def js_increment_def wallet_connected_def disconnect_def
  disconnect_resume_def await_in_disconnect_def sign_def signTransaction_def
  signAllTransactions_def handleMessage_def message_data_def admits_def on_connected_def
  on_response_def handleDisconnect_def resolve_def reject_def run_microtasks_def
  listening_def request_message_def with_network_def fresh_wallet_def

lemmas example_defs =
  example_platform_def example_url_def example_remote_def example_injected_def
  connected_notification_def disconnected_notification_def from_popup_def from_page_def
  response_def
  spoofed_disconnect_def spoofed_response_def

subsection \<open>What rejecting and disconnecting leave alone\<close>

lemma reject_sel [simp]:
  "injectedProvider (reject p r s) = injectedProvider s"
  "providerUrl (reject p r s) = providerUrl s"
  "network (reject p r s) = network s"
  "publicKey (reject p r s) = publicKey s"
  "autoApprove (reject p r s) = autoApprove s"
  "popup (reject p r s) = popup s"
  "handlerAdded (reject p r s) = handlerAdded s"
  "nextRequestId (reject p r s) = nextRequestId s"
  "responsePromises (reject p r s) = responsePromises s"
  "resumptions (reject p r s) = resumptions s"
  "window_listening (reject p r s) = window_listening s"
  "document_listening (reject p r s) = document_listening s"
  "trace (reject p r s) = trace s"
  "length (promises (reject p r s)) = length (promises s)"
  by (simp_all add: reject_def)

lemma reject_each_sel [simp]:
  "injectedProvider (reject_each es s) = injectedProvider s"
  "providerUrl (reject_each es s) = providerUrl s"
  "network (reject_each es s) = network s"
  "publicKey (reject_each es s) = publicKey s"
  "autoApprove (reject_each es s) = autoApprove s"
  "popup (reject_each es s) = popup s"
  "handlerAdded (reject_each es s) = handlerAdded s"
  "nextRequestId (reject_each es s) = nextRequestId s"
  "resumptions (reject_each es s) = resumptions s"
  "window_listening (reject_each es s) = window_listening s"
  "document_listening (reject_each es s) = document_listening s"
  "trace (reject_each es s) = trace s"
  "length (promises (reject_each es s)) = length (promises s)"
  by (induction es s rule: reject_each.induct; simp)+

lemma reject_each_table:
  "responsePromises (reject_each es s) =
     filter (\<lambda>kv. fst kv \<notin> fst ` set es) (responsePromises s)"
proof (induction es s rule: reject_each.induct)
  case (1 s)
  then show ?case by simp
next
  case (2 requestId p rest s)
  then show ?case
    by (auto simp: AList.delete_eq filter_filter case_prod_unfold intro!: filter_cong)
qed

lemma handleDisconnect_table [simp]: "responsePromises (handleDisconnect s) = []"
  by (simp add: handleDisconnect_def Let_def reject_each_table filter_empty_conv)

lemma handleDisconnect_sel [simp]:
  "injectedProvider (handleDisconnect s) = injectedProvider s"
  "providerUrl (handleDisconnect s) = providerUrl s"
  "network (handleDisconnect s) = network s"
  "publicKey (handleDisconnect s) = None"
  "autoApprove (handleDisconnect s) = autoApprove s"
  "popup (handleDisconnect s) = popup s"
  "handlerAdded (handleDisconnect s) = False"
  "nextRequestId (handleDisconnect s) = nextRequestId s"
  "resumptions (handleDisconnect s) = resumptions s"
  "document_listening (handleDisconnect s) = document_listening s"
  "length (promises (handleDisconnect s)) = length (promises s)"
  by (simp_all add: handleDisconnect_def Let_def)

lemma handleDisconnect_trace:
  "trace (handleDisconnect s) =
     trace s @ (if handlerAdded s then [RemoveListeners WindowReceiver] else [])
             @ (if publicKey s \<noteq> None then [EmitDisconnect] else [])"
  by (simp add: handleDisconnect_def Let_def)

lemma handleDisconnect_window:
  "window_listening (handleDisconnect s) = (window_listening s \<and> \<not> handlerAdded s)"
  by (simp add: handleDisconnect_def Let_def)

subsection \<open>The example sessions, computed\<close>

lemma example_remote_signing_eq:
  "example_remote_signing =
     \<lparr> injectedProvider = False,
       providerUrl = Some
         \<lparr> url_origin = ''https://wallet.example'',
           url_upto_path = ''https://wallet.example/connect'', search = [],
           fragment = Some ''origin=https%3A%2F%2Fapp.example&network=mainnet-beta'' \<rparr>,
       network = ''mainnet-beta'', publicKey = Some 3, autoApprove = True,
       popup = Some (OtherWindow 1), handlerAdded = True, nextRequestId = 2,
       responsePromises = [(1, 0)],
       promises = [\<lparr>settled = Pending, awaited_by_disconnect = False\<rparr>], resumptions = 0,
       window_listening = True, document_listening = False,
       trace =
         [AddListeners WindowReceiver, SetWindowName,
          OpenPopup
            ''https://wallet.example/connect#origin=https%3A%2F%2Fapp.example&network=mainnet-beta'',
          EmitConnect 3,
          PostToPopup (OtherWindow 1)
            (JObj [(''jsonrpc'', JStr ''2.0''), (''id'', JNum 1), (''method'', JStr ''sign''),
                   (''params'', JObj [(''data'', JArr []), (''display'', JBool True)])])
            ''https://wallet.example''] \<rparr>"
  unfolding example_remote_signing_def
  by (simp add: model_defs example_defs url_toString_def)

lemma example_injected_connecting_eq:
  "example_injected_connecting =
     \<lparr> injectedProvider = True, providerUrl = None,
       network = ''mainnet-beta'', publicKey = None, autoApprove = False,
       popup = None, handlerAdded = True, nextRequestId = 2,
       responsePromises = [(1, 0)],
       promises = [\<lparr>settled = Pending, awaited_by_disconnect = False\<rparr>], resumptions = 0,
       window_listening = True, document_listening = False,
       trace =
         [AddListeners WindowReceiver,
          PostToInjected
            (JObj [(''jsonrpc'', JStr ''2.0''), (''id'', JNum 1), (''method'', JStr ''connect''),
                   (''params'', JObj [(''network'', JStr ''mainnet-beta'')])])] \<rparr>"
  unfolding example_injected_connecting_def
  by (simp add: model_defs example_defs)


subsection \<open>Request ids under every operation\<close>

lemma keeps_ids_refl [simp]: "keeps_ids s s"
  by (simp add: keeps_ids_def)

lemma keeps_ids_trans: "keeps_ids s s' \<Longrightarrow> keeps_ids s' s'' \<Longrightarrow> keeps_ids s s''"
  by (auto simp: keeps_ids_def)

lemma keeps_reject [simp]: "keeps_ids s (reject p r s)"
  by (simp add: keeps_ids_def live_ids_def)

lemma keeps_resolve [simp]: "keeps_ids s (resolve p v s)"
  by (simp add: keeps_ids_def live_ids_def resolve_def)

lemma keeps_handleDisconnect [simp]: "keeps_ids s (handleDisconnect s)"
  by (simp add: keeps_ids_def live_ids_def)

lemma keeps_close_popup [simp]: "keeps_ids s (close_popup s)"
  by (simp add: keeps_ids_def live_ids_def close_popup_def split: option.splits)

lemma keeps_disconnect_resume [simp]: "keeps_ids s (disconnect_resume s)"
  unfolding disconnect_resume_def
  by (rule keeps_ids_trans [OF keeps_close_popup keeps_handleDisconnect])

lemma keeps_funpow_resume: "keeps_ids s ((disconnect_resume ^^ n) s)"
proof (induction n)
  case 0
  then show ?case by simp
next
  case (Suc n)
  then show ?case
    by (simp add: keeps_ids_trans [OF _ keeps_disconnect_resume])
qed

lemma keeps_run_microtasks [simp]: "keeps_ids s (run_microtasks s)"
proof -
  have "keeps_ids s (s\<lparr>resumptions := 0\<rparr>)"
    by (simp add: keeps_ids_def live_ids_def)
  then show ?thesis
    unfolding run_microtasks_def by (rule keeps_ids_trans) (rule keeps_funpow_resume)
qed

lemma sendRequest_ids:
  "sendRequest ok mth params s = (r, s') \<Longrightarrow>
     (case r of Inl e \<Rightarrow> s' = s | Inr p \<Rightarrow> takes_id s s' \<and> p = length (promises s)
        \<and> map_of (responsePromises s') (nextRequestId s) = Some p)"
  by (auto simp: sendRequest_def new_promise_def executor_def takes_id_def live_ids_def
      Let_def AList.dom_update update_Some_unfold reject_def
      split: if_splits option.splits)

lemma step_after_keeps:
  "keeps_ids s s1 \<Longrightarrow> keeps_ids s1 s2 \<or> takes_id s1 s2 \<Longrightarrow> keeps_ids s s2 \<or> takes_id s s2"
  by (auto simp: keeps_ids_def takes_id_def)

lemma keeps_after_step:
  "keeps_ids s s1 \<or> takes_id s s1 \<Longrightarrow> keeps_ids s1 s2 \<Longrightarrow> keeps_ids s s2 \<or> takes_id s s2"
  by (auto simp: keeps_ids_def takes_id_def)

lemma sendRequest_step:
  "keeps_ids s (snd (sendRequest ok mth params s)) \<or> takes_id s (snd (sendRequest ok mth params s))"
proof -
  obtain r s' where e: "sendRequest ok mth params s = (r, s')"
    by (cases "sendRequest ok mth params s")
  from sendRequest_ids [OF e] show ?thesis
    by (cases r) (auto simp: e)
qed

lemma keeps_add_listeners [simp]: "keeps_ids s (add_listeners r (s\<lparr>handlerAdded := True\<rparr>))"
  by (cases r) (simp_all add: keeps_ids_def live_ids_def add_listeners_def)

lemma handleConnect_step:
  "keeps_ids s (snd (handleConnect pf opened ok s)) \<or> takes_id s (snd (handleConnect pf opened ok s))"
proof -
  define s1 where "s1 = (if \<not> handlerAdded s then
       add_listeners (if isUIWebView pf then WindowReceiver else DocumentReceiver)
         (s\<lparr>handlerAdded := True\<rparr>) else s)"
  have k: "keeps_ids s s1"
    by (simp add: s1_def)
  show ?thesis
  proof (cases "injectedProvider s1")
    case True
    then have "snd (handleConnect pf opened ok s) = snd (sendRequest ok ''connect'' [] s1)"
      by (simp add: handleConnect_def s1_def Let_def)
    then show ?thesis
      using step_after_keeps [OF k sendRequest_step [of s1 ok "''connect''" "[]"]] by simp
  next
    case False
    then have "keeps_ids s1 (snd (handleConnect pf opened ok s))"
      by (auto simp: handleConnect_def s1_def Let_def keeps_ids_def live_ids_def
          split: option.splits)
    then show ?thesis
      using keeps_ids_trans [OF k] by blast
  qed
qed

lemma connect_step:
  "keeps_ids s (snd (connect pf opened ok s)) \<or> takes_id s (snd (connect pf opened ok s))"
  unfolding connect_def
  by (rule step_after_keeps [OF keeps_close_popup handleConnect_step])

lemma keeps_await [simp]: "keeps_ids s (snd (await_in_disconnect p s))"
  by (simp add: await_in_disconnect_def keeps_ids_def live_ids_def split: settlement.splits)

lemma disconnect_step:
  "keeps_ids s (snd (disconnect ok s)) \<or> takes_id s (snd (disconnect ok s))"
proof (cases "injectedProvider s")
  case True
  obtain r s' where e: "sendRequest ok ''disconnect'' [] s = (r, s')"
    by (cases "sendRequest ok ''disconnect'' [] s")
  have st: "keeps_ids s s' \<or> takes_id s s'"
    using sendRequest_step [of s ok "''disconnect''" "[]"] by (simp add: e)
  show ?thesis
  proof (cases r)
    case (Inl x)
    then show ?thesis
      using True st by (simp add: disconnect_def e)
  next
    case (Inr p)
    then have "snd (disconnect ok s) = snd (await_in_disconnect p s')"
      using True by (simp add: disconnect_def e)
    then show ?thesis
      using keeps_after_step [OF st keeps_await [of s' p]] by simp
  qed
next
  case False
  then show ?thesis
    by (simp add: disconnect_def)
qed

lemma sign_step:
  "keeps_ids s (snd (sign b d x ok s)) \<or> takes_id s (snd (sign b d x ok s))"
  using sendRequest_step by (simp add: sign_def)

lemma keeps_on_connected [simp]: "keeps_ids s (snd (on_connected pf d s))"
proof -
  have a: "keeps_ids s (t\<lparr>publicKey := k\<rparr>)" if "keeps_ids s t" for t k
    using that by (simp add: keeps_ids_def live_ids_def)
  have b: "keeps_ids s (t\<lparr>publicKey := k, autoApprove := x, trace := y\<rparr>)"
    if "keeps_ids s t" for t k x y
    using that by (simp add: keeps_ids_def live_ids_def)
  show ?thesis
    by (auto simp: on_connected_def Let_def a b split: option.splits)
qed

lemma keeps_on_response [simp]: "keeps_ids s (snd (on_response d s))"
  by (auto simp: on_response_def split: option.splits)

lemma keeps_handleMessage [simp]: "keeps_ids s (snd (handleMessage pf e s))"
  by (auto simp: handleMessage_def Let_def split: option.splits sum.splits bool.splits)

lemma perform_step: "keeps_ids s (perform pf t s) \<or> takes_id s (perform pf t s)"
proof -
  have m: "keeps_ids s (run_microtasks x) \<or> takes_id s (run_microtasks x)"
    if "keeps_ids s x \<or> takes_id s x" for x
    by (rule keeps_after_step [OF that keeps_run_microtasks])
  show ?thesis
  proof (cases t)
    case (CallConnect opened ok)
    then show ?thesis using m [OF connect_step] by simp
  next
    case (CallDisconnect ok)
    then show ?thesis using m [OF disconnect_step] by simp
  next
    case (CallSign b d x ok)
    then show ?thesis using m [OF sign_step] by simp
  next
    case (CallSignTransaction enc ok)
    then show ?thesis using m [OF sendRequest_step] by (simp add: signTransaction_def)
  next
    case (CallSignAllTransactions enc ok)
    then show ?thesis using m [OF sendRequest_step] by (simp add: signAllTransactions_def)
  next
    case (MessageAt r e)
    then show ?thesis using m [of "snd (handleMessage pf e s)"] by simp
  next
    case (BeforeUnload ok)
    then show ?thesis using m [OF disconnect_step] by simp
  qed
qed

lemma js_increment_mono: "n \<le> js_increment n"
  by (simp add: js_increment_def)

lemma perform_counter: "nextRequestId s \<le> nextRequestId (perform pf t s)"
  using perform_step [of s pf t] js_increment_mono [of "nextRequestId s"]
  by (auto simp: keeps_ids_def takes_id_def)

lemma perform_transport:
  "injectedProvider (perform pf t s) = injectedProvider s"
  "providerUrl (perform pf t s) = providerUrl s"
  using perform_step [of s pf t] by (auto simp: keeps_ids_def takes_id_def)

lemma perform_live_ids:
  "k \<in> live_ids (perform pf t s) \<Longrightarrow> k \<in> live_ids s \<or> k = nextRequestId s"
  using perform_step [of s pf t] by (auto simp: keeps_ids_def takes_id_def)

lemma run_counter: "nextRequestId s \<le> nextRequestId (run pf tasks s)"
proof (induction tasks arbitrary: s)
  case Nil
  then show ?case by (simp add: run_def)
next
  case (Cons t tasks)
  have "nextRequestId s \<le> nextRequestId (perform pf t s)"
    by (rule perform_counter)
  also have "\<dots> \<le> nextRequestId (run pf tasks (perform pf t s))"
    by (rule Cons.IH)
  finally show ?case by (simp add: run_def)
qed

lemma run_transport:
  "injectedProvider (run pf tasks s) = injectedProvider s"
  "providerUrl (run pf tasks s) = providerUrl s"
  by (induction tasks arbitrary: s) (simp_all add: run_def perform_transport)

lemma run_live_ids:
  "k \<in> live_ids (run pf tasks s) \<Longrightarrow> k \<in> live_ids s \<or> nextRequestId s \<le> k"
proof (induction tasks arbitrary: s)
  case Nil
  then show ?case by (simp add: run_def)
next
  case (Cons t tasks)
  from Cons.prems have "k \<in> live_ids (run pf tasks (perform pf t s))"
    by (simp add: run_def)
  then have "k \<in> live_ids (perform pf t s) \<or> nextRequestId (perform pf t s) \<le> k"
    by (rule Cons.IH)
  then show ?case
    using perform_live_ids [of k pf t s] perform_counter [of s pf t] by auto
qed

lemma run_ids_below_counter:
  assumes "\<forall>k \<in> live_ids s. k < nextRequestId s"
    and "nextRequestId (run pf tasks s) < 2 ^ 53"
  shows "\<forall>k \<in> live_ids (run pf tasks s). k < nextRequestId (run pf tasks s)"
  using assms
proof (induction tasks arbitrary: s)
  case Nil
  then show ?case by (simp add: run_def)
next
  case (Cons t tasks)
  let ?s = "perform pf t s"
  have r: "run pf (t # tasks) s = run pf tasks ?s"
    by (simp add: run_def)
  have "nextRequestId ?s \<le> nextRequestId (run pf tasks ?s)"
    by (rule run_counter)
  with Cons.prems(2) have small: "nextRequestId ?s < 2 ^ 53"
    by (simp add: r)
  have "\<forall>k \<in> live_ids ?s. k < nextRequestId ?s"
  proof
    fix k assume "k \<in> live_ids ?s"
    then have "k \<in> live_ids s \<or> k = nextRequestId s"
      by (rule perform_live_ids)
    then show "k < nextRequestId ?s"
    proof
      assume "k \<in> live_ids s"
      with Cons.prems(1) have "k < nextRequestId s"
        by simp
      also have "\<dots> \<le> nextRequestId ?s"
        by (rule perform_counter)
      finally show ?thesis .
    next
      assume k: "k = nextRequestId s"
      show ?thesis
      proof (cases "k \<in> live_ids s")
        case True
        with Cons.prems(1) have "k < nextRequestId s"
          by blast
        with k show ?thesis by simp
      next
        case False
        with \<open>k \<in> live_ids ?s\<close> have "takes_id s ?s"
          using perform_step [of s pf t] by (auto simp: keeps_ids_def)
        then show ?thesis
          using small k by (simp add: takes_id_def js_increment_def split: if_splits)
      qed
    qed
  qed
  then show ?case
    using Cons.IH [of ?s] Cons.prems(2) by (simp add: r)
qed

lemma example_injected_disconnected_eq:
  "example_injected_disconnected =
     \<lparr> injectedProvider = True, providerUrl = None,
       network = ''mainnet-beta'', publicKey = None, autoApprove = True,
       popup = None, handlerAdded = False, nextRequestId = 2,
       responsePromises = [],
       promises = [\<lparr>settled = Rejected WalletDisconnected, awaited_by_disconnect = False\<rparr>],
       resumptions = 0,
       window_listening = False, document_listening = False,
       trace =
         [AddListeners WindowReceiver,
          PostToInjected
            (JObj [(''jsonrpc'', JStr ''2.0''), (''id'', JNum 1), (''method'', JStr ''connect''),
                   (''params'', JObj [(''network'', JStr ''mainnet-beta'')])]),
          EmitConnect 3,
          RemoveListeners WindowReceiver,
          EmitDisconnect] \<rparr>"
  unfolding example_injected_disconnected_def
  by (simp add: model_defs example_defs)

lemma connect_injected_counter:
  assumes "injectedProvider s"
  shows "nextRequestId (perform pf (CallConnect opened ok) s) = js_increment (nextRequestId s)"
proof -
  have "nextRequestId (snd (connect pf opened ok s)) = js_increment (nextRequestId s)"
    using assms
    by (simp add: connect_def close_popup_def handleConnect_def add_listeners_def
        sendRequest_def new_promise_def executor_def Let_def split: option.splits receiver.splits)
  moreover have "nextRequestId (run_microtasks x) = nextRequestId x" for x
    using keeps_run_microtasks [of x] by (simp add: keeps_ids_def)
  ultimately show ?thesis by simp
qed

lemma replicate_connect_counter:
  assumes "injectedProvider s" and "nextRequestId s \<le> 2 ^ 53"
  shows "nextRequestId (run pf (replicate n (CallConnect opened ok)) s)
           = min (nextRequestId s + n) (2 ^ 53)"
  using assms
proof (induction n arbitrary: s)
  case 0
  then show ?case by (simp add: run_def)
next
  case (Suc n)
  define s' where "s' = perform pf (CallConnect opened ok) s"
  have c: "nextRequestId s' = js_increment (nextRequestId s)"
    unfolding s'_def using Suc.prems(1) by (rule connect_injected_counter)
  have i: "injectedProvider s'"
    unfolding s'_def using Suc.prems(1) by (simp only: perform_transport)
  have b: "nextRequestId s' \<le> 2 ^ 53"
    using Suc.prems(2) by (simp add: c js_increment_def)
  have "nextRequestId (run pf (replicate (Suc n) (CallConnect opened ok)) s)
          = nextRequestId (run pf (replicate n (CallConnect opened ok)) s')"
    by (simp add: run_def s'_def)
  also have "\<dots> = min (nextRequestId s' + n) (2 ^ 53)"
    using i b by (rule Suc.IH)
  also have "\<dots> = min (nextRequestId s + Suc n) (2 ^ 53)"
    using Suc.prems(2) by (simp add: c js_increment_def)
  finally show ?case .
qed

subsection \<open>Admission, listeners and \<open>disconnect\<close>\<close>

lemma other_origin_dropped:
  assumes "providerUrl s = Some u"
    and "\<not> injectedProvider s"
    and "origin e \<noteq> url_origin u"
    and "\<not> rn_tagged (message_data pf e)"
  shows "snd (handleMessage pf e s) = s"
  using assms
  by (auto simp: handleMessage_def admits_def rn_tagged_def Let_def split: option.splits)


lemma connect_installs_first:
  assumes "\<not> handlerAdded s"
  shows "handlerAdded (snd (connect pf opened ok s))
       \<and> listening (snd (connect pf opened ok s))
           (if isUIWebView pf then WindowReceiver else DocumentReceiver)
       \<and> AddListeners (if isUIWebView pf then WindowReceiver else DocumentReceiver)
           \<in> set (takeWhile (\<lambda>x. \<not> is_post x) (effects_since s (snd (connect pf opened ok s))))"
  using assms
  by (auto simp: connect_def close_popup_def handleConnect_def add_listeners_def
      sendRequest_def new_promise_def executor_def listening_def effects_since_def Let_def
      split: option.splits)

lemma connect_installs_once:
  assumes "handlerAdded s"
  shows "AddListeners r \<notin> set (effects_since s (snd (connect pf opened ok s)))"
  using assms
  by (auto simp: connect_def close_popup_def handleConnect_def
      sendRequest_def new_promise_def executor_def effects_since_def Let_def
      split: option.splits)

lemma handleDisconnect_removes:
  assumes "handlerAdded s"
  shows "\<not> window_listening (handleDisconnect s)
       \<and> RemoveListeners WindowReceiver \<in> set (effects_since s (handleDisconnect s))"
  using assms by (simp add: handleDisconnect_window handleDisconnect_trace effects_since_def)

lemma resume_clears:
  "publicKey (disconnect_resume s) = None" "responsePromises (disconnect_resume s) = []"
  by (simp_all add: disconnect_resume_def)

lemma resolve_awaited_runs_teardown:
  assumes "p < length (promises t)" and "settled (promises t ! p) = Pending"
    and "awaited_by_disconnect (promises t ! p)"
  shows "publicKey (run_microtasks (resolve p v t)) = None
       \<and> responsePromises (run_microtasks (resolve p v t)) = []"
proof -
  have "resumptions (resolve p v t) = Suc (resumptions t)"
    using assms by (simp add: resolve_def)
  then show ?thesis
    by (simp add: run_microtasks_def resume_clears)
qed




lemma reject_settled:
  "i < length (promises s) \<Longrightarrow>
     settled (promises (reject p r s) ! i)
       = (if i = p \<and> settled (promises s ! i) = Pending then Rejected r
          else settled (promises s ! i))"
  by (auto simp: reject_def nth_list_update)

lemma reject_each_settled:
  "i < length (promises s) \<Longrightarrow>
     settled (promises (reject_each es s) ! i)
       = (if i \<in> snd ` set es \<and> settled (promises s ! i) = Pending
          then Rejected WalletDisconnected else settled (promises s ! i))"
proof (induction es s rule: reject_each.induct)
  case (1 s)
  then show ?case by simp
next
  case (2 requestId p rest s)
  let ?s = "reject p WalletDisconnected
              (s\<lparr>responsePromises := AList.delete requestId (responsePromises s)\<rparr>)"
  have len: "i < length (promises ?s)"
    using "2.prems" by simp
  have one: "settled (promises ?s ! i)
      = (if i = p \<and> settled (promises s ! i) = Pending then Rejected WalletDisconnected
         else settled (promises s ! i))"
  proof (cases "i = p")
    case True
    with "2.prems" show ?thesis
      by (cases "settled (promises s ! p)") (simp_all add: reject_settled)
  next
    case False
    with "2.prems" show ?thesis
      by (simp add: reject_settled)
  qed
  show ?case
    using "2.IH" [OF len] one by auto
qed

lemma handleDisconnect_settled:
  "i < length (promises s) \<Longrightarrow>
     settled (promises (handleDisconnect s) ! i)
       = (if i \<in> snd ` set (responsePromises s) \<and> settled (promises s ! i) = Pending
          then Rejected WalletDisconnected else settled (promises s ! i))"
  by (simp add: handleDisconnect_def Let_def reject_each_settled)






section \<open>Message validation\<close>

text \<open>
  C1. As stated (every message whose declared origin differs from the provider URL's
  origin leaves the session untouched) the property fails: line 41 admits any payload
  tagged \<open>isRN\<close> before the origin is looked at. What holds: in a session constructed on
  a URL provider, at any later moment, a message whose declared origin differs from the
  origin of the provider URL and whose payload is not tagged \<open>isRN\<close> leaves the whole
  session as it was: identity, \<open>autoApprove\<close>, the correlation table and every promise,
  whatever \<open>id\<close> and \<open>method\<close> it carries.
\<close>

theorem untagged_message_of_other_origin_is_dropped:
  assumes made: "new_Wallet pf (ProviderString t) net = Inr w"
    and u: "providerUrl w = Some u"
    and other: "origin e \<noteq> url_origin u"
    and untagged: "\<not> rn_tagged (message_data pf e)"
  shows "providerUrl (run pf tasks w) = Some u
       \<and> snd (handleMessage pf e (run pf tasks w)) = run pf tasks w"
proof -
  from made have "\<not> injectedProvider w"
    by (auto simp: new_Wallet_def isInjectedProvider_def fresh_wallet_def split: option.splits)
  then have i: "\<not> injectedProvider (run pf tasks w)"
    by (simp add: run_transport)
  have p: "providerUrl (run pf tasks w) = Some u"
    using u by (simp add: run_transport)
  from other_origin_dropped [OF p i other untagged] p show ?thesis
    by simp
qed

theorem untagged_message_witness:
  "new_Wallet example_platform (ProviderString ''https://wallet.example/connect'') ''mainnet-beta''
     = Inr example_remote
   \<and> providerUrl example_remote
       = Some (example_url\<lparr>fragment := Some ''origin=https%3A%2F%2Fapp.example&network=mainnet-beta''\<rparr>)
   \<and> origin spoofed_response \<noteq> ''https://wallet.example''
   \<and> \<not> rn_tagged (message_data example_platform spoofed_response)
   \<and> snd (handleMessage example_platform spoofed_response example_remote_signing)
       = example_remote_signing"
proof -
  have made: "new_Wallet example_platform (ProviderString ''https://wallet.example/connect'')
      ''mainnet-beta'' = Inr example_remote"
    by (simp add: new_Wallet_def isInjectedProvider_def set_hash_def urlencode_def
        urlencode_byte_def urlencoded_unreserved_def hex_digit_def example_platform_def
        example_url_def example_remote_def)
  have u: "providerUrl example_remote
     = Some (example_url\<lparr>fragment := Some ''origin=https%3A%2F%2Fapp.example&network=mainnet-beta''\<rparr>)"
    by (simp add: example_remote_def fresh_wallet_def)
  have other: "origin spoofed_response
      \<noteq> url_origin (example_url\<lparr>fragment := Some ''origin=https%3A%2F%2Fapp.example&network=mainnet-beta''\<rparr>)"
    by (simp add: example_defs)
  have untagged: "\<not> rn_tagged (message_data example_platform spoofed_response)"
    by (simp add: rn_tagged_def message_data_def example_defs)
  show ?thesis
    using untagged_message_of_other_origin_is_dropped [OF made u other untagged,
        of "[CallConnect (Some (OtherWindow 1)) True,
             MessageAt WindowReceiver (from_popup (connected_notification ''abc'')),
             CallSign True (JArr []) (JBool True) True]"]
      made u other untagged
    by (simp add: example_remote_signing_def example_url_def)
qed

text \<open>
  The message that refutes C1 as stated: its origin is foreign and its source is no
  window of the session, yet it disconnects the session and rejects the waiting request.
\<close>

theorem tagged_message_bypasses_origin_check:
  "providerUrl example_remote_signing
     = Some (example_url\<lparr>fragment := Some ''origin=https%3A%2F%2Fapp.example&network=mainnet-beta''\<rparr>)
   \<and> origin spoofed_disconnect \<noteq> ''https://wallet.example''
   \<and> publicKey example_remote_signing = Some 3
   \<and> publicKey (snd (handleMessage example_platform spoofed_disconnect example_remote_signing))
       = None
   \<and> settled (promises example_remote_signing ! 0) = Pending
   \<and> settled (promises
        (snd (handleMessage example_platform spoofed_disconnect example_remote_signing)) ! 0)
       = Rejected WalletDisconnected"
  by (simp add: example_remote_signing_eq example_defs handleMessage_def message_data_def
      admits_def handleDisconnect_def reject_def)

section \<open>Settlement of responses\<close>

text \<open>
  C2. The property says that an admitted response removes the entry of its request
  from the correlation table. Lines 58 to 65 only read the table: after the popup's
  response to request 1 has resolved its promise, the entry of request 1 is still there
  (only \<open>_handleDisconnect\<close> deletes entries).
\<close>

theorem response_entry_stays_in_table:
  "responsePromises example_remote_signing = [(1, 0)]
   \<and> settled (promises example_remote_signing ! 0) = Pending
   \<and> settled (promises (snd (handleMessage example_platform
        (from_popup (response 1 (JStr ''ok'') JUndefined)) example_remote_signing)) ! 0)
       = Resolved (JStr ''ok'')
   \<and> responsePromises (snd (handleMessage example_platform
        (from_popup (response 1 (JStr ''ok'') JUndefined)) example_remote_signing)) = [(1, 0)]"
  by (simp add: example_remote_signing_eq example_defs handleMessage_def message_data_def
      admits_def on_response_def resolve_def)

text \<open>
  C10. An admitted response whose \<open>id\<close> has an entry with a pending promise is
  settled by the truthiness of its fields: a truthy \<open>result\<close> resolves the promise with
  it, whatever \<open>error\<close> holds; otherwise a truthy \<open>error\<close> rejects it; when both are
  falsy the handler changes nothing and the promise stays pending.
\<close>

theorem settlement_dispatches_on_truthiness:
  assumes adm: "admits s e (message_data pf e) = Inr True"
    and m1: "getprop (message_data pf e) ''method'' \<noteq> Some (JStr ''connected'')"
    and m2: "getprop (message_data pf e) ''method'' \<noteq> Some (JStr ''disconnected'')"
    and res: "getprop (message_data pf e) ''result'' = Some res"
    and err: "getprop (message_data pf e) ''error'' = Some err"
    and ident: "getprop (message_data pf e) ''id'' = Some i"
    and live: "Map_get (responsePromises s) i = Some p"
    and inrange: "p < length (promises s)"
    and pending: "settled (promises s ! p) = Pending"
  shows "handleMessage pf e s =
           (None, if truthy res then resolve p res s
                  else if truthy err then reject p (ErrorOf err) s
                  else s)
       \<and> settled (promises (snd (handleMessage pf e s)) ! p) =
           (if truthy res then Resolved res
            else if truthy err then Rejected (ErrorOf err)
            else Pending)"
proof -
  from res obtain m where m: "getprop (message_data pf e) ''method'' = Some m"
    by (cases "message_data pf e") auto
  have hm: "handleMessage pf e s = on_response (message_data pf e) s"
    using adm m m1 m2 by (simp add: handleMessage_def Let_def)
  show ?thesis
    using res err ident live inrange pending
    by (simp add: hm on_response_def resolve_def reject_def)
qed

theorem settlement_witness:
  "admits example_remote_signing (from_popup (response 1 (JStr ''ok'') (JStr ''also'')))
     (message_data example_platform (from_popup (response 1 (JStr ''ok'') (JStr ''also''))))
     = Inr True
   \<and> Map_get (responsePromises example_remote_signing) (JNum 1) = Some 0
   \<and> settled (promises example_remote_signing ! 0) = Pending
   \<and> settled (promises (snd (handleMessage example_platform
        (from_popup (response 1 (JStr ''ok'') (JStr ''also''))) example_remote_signing)) ! 0)
       = Resolved (JStr ''ok'')
   \<and> settled (promises (snd (handleMessage example_platform
        (from_popup (response 1 (JNum 0) (JStr ''refused''))) example_remote_signing)) ! 0)
       = Rejected (ErrorOf (JStr ''refused''))
   \<and> handleMessage example_platform
        (from_popup (response 1 (JNum 0) (JStr []))) example_remote_signing
       = (None, example_remote_signing)"
proof -
  have adm: "admits example_remote_signing (from_popup (response 1 r x))
      (message_data example_platform (from_popup (response 1 r x))) = Inr True" for r x
    by (simp add: example_remote_signing_eq admits_def message_data_def example_defs)
  have props:
      "getprop (message_data example_platform (from_popup (response 1 r x))) ''method''
        \<noteq> Some (JStr ''connected'')"
      "getprop (message_data example_platform (from_popup (response 1 r x))) ''method''
        \<noteq> Some (JStr ''disconnected'')"
      "getprop (message_data example_platform (from_popup (response 1 r x))) ''result'' = Some r"
      "getprop (message_data example_platform (from_popup (response 1 r x))) ''error'' = Some x"
      "getprop (message_data example_platform (from_popup (response 1 r x))) ''id'' = Some (JNum 1)"
    for r x
    by (simp_all add: message_data_def example_defs)
  have live: "Map_get (responsePromises example_remote_signing) (JNum 1) = Some 0"
    "0 < length (promises example_remote_signing)"
    "settled (promises example_remote_signing ! 0) = Pending"
    by (simp_all add: example_remote_signing_eq)
  note dispatch = settlement_dispatches_on_truthiness
    [OF adm props(1) props(2) props(3) props(4) props(5) live]
  show ?thesis
    using dispatch [of "JStr ''ok''" "JStr ''also''"] dispatch [of "JNum 0" "JStr ''refused''"]
      dispatch [of "JNum 0" "JStr []"] adm [of "JStr ''ok''" "JStr ''also''"] live
    by (simp add: resolve_def reject_def)
qed

section \<open>The provider URL\<close>

text \<open>
  C5. As stated (origin and network become query parameters of the URL) the property
  fails: lines 12 to 15 assign the serialised pair to \<open>hash\<close>, so the query of the URL
  stays what the provider string had. What holds: for every provider string that
  parses, the resolved URL is the parsed one with its fragment replaced by
  \<open>origin=...&network=...\<close>, the form-urlencoded origin of the page and the network;
  origin, path and query are unchanged.
\<close>

theorem provider_url_parameters_in_fragment:
  assumes "new_URL pf t = Some u"
  shows "new_Wallet pf (ProviderString t) net =
           Inr (fresh_wallet False
             (Some (u\<lparr>fragment := Some (''origin='' @ urlencode (location_origin pf)
                                          @ ''&network='' @ urlencode net)\<rparr>)) net)"
  using assms
  by (simp add: new_Wallet_def isInjectedProvider_def set_hash_def urlencode_def
      urlencode_byte_def urlencoded_unreserved_def)

theorem provider_url_witness:
  "new_URL example_platform ''https://wallet.example/connect'' = Some example_url
   \<and> new_Wallet example_platform (ProviderString ''https://wallet.example/connect'') ''devnet''
       = Inr (fresh_wallet False
           (Some (example_url\<lparr>fragment :=
              Some (''origin='' @ urlencode ''https://app.example'' @ ''&network='' @ urlencode ''devnet'')\<rparr>))
           ''devnet'')"
proof -
  have p: "new_URL example_platform ''https://wallet.example/connect'' = Some example_url"
    by (simp add: example_platform_def)
  show ?thesis
    using provider_url_parameters_in_fragment [OF p, of "''devnet''"] p
    by (simp add: example_platform_def)
qed

text \<open>
  The construction that refutes C5 as stated: the query of the resolved URL is empty,
  and the two parameters stand after the hash sign.
\<close>

theorem provider_url_query_unchanged:
  "new_Wallet example_platform (ProviderString ''https://wallet.example/connect'') ''mainnet-beta''
     = Inr (fresh_wallet False
         (Some \<lparr> url_origin = ''https://wallet.example'',
                 url_upto_path = ''https://wallet.example/connect'',
                 search = [],
                 fragment = Some ''origin=https%3A%2F%2Fapp.example&network=mainnet-beta'' \<rparr>)
         ''mainnet-beta'')"
  by (simp add: new_Wallet_def isInjectedProvider_def set_hash_def urlencode_def
      urlencode_byte_def urlencoded_unreserved_def hex_digit_def example_platform_def
      example_url_def)

section \<open>Requests before connection\<close>

text \<open>
  C6. A request whose method is not \<open>connect\<close>, issued while the session is not
  connected, fails with \<open>NotConnected\<close> and leaves the session exactly as it was: no
  message is posted, the id counter does not move and the correlation table gets no
  entry. The same holds for the three signing operations.
\<close>

theorem request_before_connection_fails:
  assumes "mth \<noteq> ''connect''" and "\<not> wallet_connected s"
  shows "sendRequest post_returns mth params s = (Inl NotConnected, s)
       \<and> sign True bytes display post_returns s = (Inl NotConnected, s)
       \<and> signTransaction encoded post_returns s = (Inl NotConnected, s)
       \<and> signAllTransactions encodeds post_returns s = (Inl NotConnected, s)"
  using assms
  by (simp add: sendRequest_def sign_def signTransaction_def signAllTransactions_def)

theorem request_before_connection_witness:
  "''sign'' \<noteq> ''connect'' \<and> \<not> wallet_connected example_injected_connecting
   \<and> sendRequest True ''sign'' [] example_injected_connecting
       = (Inl NotConnected, example_injected_connecting)
   \<and> sign True (JArr []) (JBool True) True example_injected_connecting
       = (Inl NotConnected, example_injected_connecting)"
proof -
  have c: "\<not> wallet_connected example_injected_connecting"
    by (simp add: example_injected_connecting_eq wallet_connected_def)
  have m: "''sign'' \<noteq> ''connect''"
    by simp
  show ?thesis
    using request_before_connection_fails [OF m c] c by simp
qed

section \<open>Connection notifications\<close>

text \<open>
  C7. An admitted \<open>connected\<close> notification that carries identity \<open>b\<close> while the
  session is connected with a different identity \<open>a\<close> first runs the whole disconnect
  transition, which leaves the session without identity, emits \<open>disconnect\<close>, empties
  the correlation table and rejects every pending request of the table with
  \<open>Wallet disconnected\<close>, and then adopts \<open>b\<close> and emits \<open>connect\<close> with \<open>b\<close>:
  the host sees exactly these two events, in this order, and the session after the
  handler has the table and the promises the transition left.
\<close>

theorem identity_change_disconnects_then_connects:
  assumes adm: "admits s e (message_data pf e) = Inr True"
    and mth: "getprop (message_data pf e) ''method'' = Some (JStr ''connected'')"
    and new: "notified_identity pf (message_data pf e) = Some b"
    and old: "publicKey s = Some a"
    and diff: "a \<noteq> b"
  shows "publicKey (handleDisconnect s) = None
       \<and> events (handleDisconnect s) = events s @ [EmitDisconnect]
       \<and> responsePromises (handleDisconnect s) = []
       \<and> (\<forall>i < length (promises s).
             settled (promises (handleDisconnect s) ! i)
               = (if i \<in> snd ` set (responsePromises s) \<and> settled (promises s ! i) = Pending
                  then Rejected WalletDisconnected else settled (promises s ! i)))
       \<and> publicKey (snd (handleMessage pf e s)) = Some b
       \<and> events (snd (handleMessage pf e s)) = events s @ [EmitDisconnect, EmitConnect b]
       \<and> trace (snd (handleMessage pf e s)) = trace (handleDisconnect s) @ [EmitConnect b]
       \<and> responsePromises (snd (handleMessage pf e s)) = []
       \<and> promises (snd (handleMessage pf e s)) = promises (handleDisconnect s)
       \<and> fst (handleMessage pf e s) = None"
proof -
  have ev: "events (handleDisconnect s) = events s @ [EmitDisconnect]"
    using old by (simp add: events_def handleDisconnect_trace is_event_def)
  have rejected: "\<forall>i < length (promises s).
             settled (promises (handleDisconnect s) ! i)
               = (if i \<in> snd ` set (responsePromises s) \<and> settled (promises s ! i) = Pending
                  then Rejected WalletDisconnected else settled (promises s ! i))"
    by (intro allI impI) (rule handleDisconnect_settled)
  obtain ps k where ps: "getprop (message_data pf e) ''params'' = Some ps"
    and k: "getprop ps ''publicKey'' = Some k" and pk: "new_PublicKey pf k = Some b"
    using new by (auto simp: notified_identity_def split: option.splits)
  from k obtain au where au: "getprop ps ''autoApprove'' = Some au"
    by (cases ps) auto
  have hm: "handleMessage pf e s =
      (None, (handleDisconnect s)\<lparr>publicKey := Some b, autoApprove := truthy au,
                trace := trace (handleDisconnect s) @ [EmitConnect b]\<rparr>)"
    using adm mth ps k pk au old diff
    by (simp add: handleMessage_def on_connected_def Let_def)
  have rest: "publicKey (snd (handleMessage pf e s)) = Some b
       \<and> events (snd (handleMessage pf e s)) = events s @ [EmitDisconnect, EmitConnect b]
       \<and> trace (snd (handleMessage pf e s)) = trace (handleDisconnect s) @ [EmitConnect b]
       \<and> responsePromises (snd (handleMessage pf e s)) = []
       \<and> promises (snd (handleMessage pf e s)) = promises (handleDisconnect s)
       \<and> fst (handleMessage pf e s) = None"
    using ev by (simp add: hm events_def is_event_def)
  have first: "publicKey (handleDisconnect s) = None"
    "responsePromises (handleDisconnect s) = []"
    by simp_all
  from first ev rejected rest show ?thesis
    by blast
qed

theorem identity_change_witness:
  "admits example_remote_signing (from_popup (connected_notification ''abcd''))
     (message_data example_platform (from_popup (connected_notification ''abcd''))) = Inr True
   \<and> publicKey example_remote_signing = Some 3
   \<and> responsePromises example_remote_signing = [(1, 0)]
   \<and> settled (promises example_remote_signing ! 0) = Pending
   \<and> publicKey (snd (handleMessage example_platform
         (from_popup (connected_notification ''abcd'')) example_remote_signing)) = Some 4
   \<and> events (snd (handleMessage example_platform
         (from_popup (connected_notification ''abcd'')) example_remote_signing))
       = [EmitConnect 3, EmitDisconnect, EmitConnect 4]
   \<and> responsePromises (snd (handleMessage example_platform
         (from_popup (connected_notification ''abcd'')) example_remote_signing)) = []
   \<and> settled (promises (snd (handleMessage example_platform
         (from_popup (connected_notification ''abcd'')) example_remote_signing)) ! 0)
       = Rejected WalletDisconnected"
proof -
  let ?e = "from_popup (connected_notification ''abcd'')"
  have adm: "admits example_remote_signing ?e (message_data example_platform ?e) = Inr True"
    by (simp add: example_remote_signing_eq admits_def message_data_def example_defs)
  have mth: "getprop (message_data example_platform ?e) ''method'' = Some (JStr ''connected'')"
    by (simp add: message_data_def example_defs)
  have new: "notified_identity example_platform (message_data example_platform ?e) = Some 4"
    by (simp add: notified_identity_def message_data_def example_defs)
  have old: "publicKey example_remote_signing = Some 3"
    by (simp add: example_remote_signing_eq)
  have ev: "events example_remote_signing = [EmitConnect 3]"
    by (simp add: example_remote_signing_eq events_def is_event_def)
  have live: "responsePromises example_remote_signing = [(1, 0)]"
    "settled (promises example_remote_signing ! 0) = Pending"
    "length (promises example_remote_signing) = Suc 0"
    by (simp_all add: example_remote_signing_eq)
  show ?thesis
    using identity_change_disconnects_then_connects [OF adm mth new old] adm old ev live
    by simp
qed

text \<open>
  C8. While the session is connected, admitted \<open>connected\<close> notifications that carry
  the identity it already has change nothing, however many arrive: the session after
  all of them is the session before, so no event is emitted and no field moves.
\<close>

theorem same_identity_notifications_change_nothing:
  assumes "\<forall>e \<in> set es.
             admits s e (message_data pf e) = Inr True
           \<and> getprop (message_data pf e) ''method'' = Some (JStr ''connected'')
           \<and> notified_identity pf (message_data pf e) = publicKey s"
    and "wallet_connected s"
  shows "handle_all pf es s = s \<and> (\<forall>e \<in> set es. handleMessage pf e s = (None, s))"
proof -
  have one: "handleMessage pf e s = (None, s)" if "e \<in> set es" for e
  proof -
    from that assms obtain a where a: "publicKey s = Some a"
      and adm: "admits s e (message_data pf e) = Inr True"
      and mth: "getprop (message_data pf e) ''method'' = Some (JStr ''connected'')"
      and new: "notified_identity pf (message_data pf e) = Some a"
      by (auto simp: wallet_connected_def)
    obtain ps k where ps: "getprop (message_data pf e) ''params'' = Some ps"
      and k: "getprop ps ''publicKey'' = Some k" and pk: "new_PublicKey pf k = Some a"
      using new by (auto simp: notified_identity_def split: option.splits)
    show ?thesis
      using adm mth ps k pk a by (simp add: handleMessage_def on_connected_def Let_def)
  qed
  have "fold (\<lambda>e s. snd (handleMessage pf e s)) xs s = s" if "set xs \<subseteq> set es" for xs
    using that by (induction xs) (simp_all add: one)
  then show ?thesis
    using one by (simp add: handle_all_def)
qed

theorem same_identity_witness:
  "wallet_connected example_remote_signing
   \<and> admits example_remote_signing (from_popup (connected_notification ''abc''))
       (message_data example_platform (from_popup (connected_notification ''abc''))) = Inr True
   \<and> notified_identity example_platform
       (message_data example_platform (from_popup (connected_notification ''abc'')))
       = publicKey example_remote_signing
   \<and> handle_all example_platform
       [from_popup (connected_notification ''abc''), from_popup (connected_notification ''xyz'')]
       example_remote_signing = example_remote_signing"
proof -
  let ?es = "[from_popup (connected_notification ''abc''), from_popup (connected_notification ''xyz'')]"
  have c: "wallet_connected example_remote_signing"
    by (simp add: example_remote_signing_eq wallet_connected_def)
  have h: "\<forall>e \<in> set ?es.
             admits example_remote_signing e (message_data example_platform e) = Inr True
           \<and> getprop (message_data example_platform e) ''method'' = Some (JStr ''connected'')
           \<and> notified_identity example_platform (message_data example_platform e)
               = publicKey example_remote_signing"
    by (simp add: example_remote_signing_eq admits_def message_data_def notified_identity_def
        example_defs)
  show ?thesis
    using same_identity_notifications_change_nothing [OF h c] c h by simp
qed

section \<open>Request identifiers\<close>

text \<open>
  C9. As stated (every allocation yields the previous id plus one, for ever) the
  property fails where a JavaScript number stops counting by one: at \<open>2 ^ 53\<close> the
  increment of line 119 leaves the counter where it is, and the next request gets the
  same id. What holds: a new session starts with counter 1 and an empty table; a request
  that allocates an id while the counter is below \<open>2 ^ 53\<close> stores its promise under
  the counter's value and moves the counter up by one, so every later id is larger; no
  operation ever lowers or resets the counter; an id below the counter that has no
  entry in the table never gets one again; and while the counter is below \<open>2 ^ 53\<close>
  every id in the table is below the counter, so the next id is not in use.
\<close>

theorem request_ids_count_up_below_2_53:
  "(new_Wallet pf provider net = Inr w \<longrightarrow> nextRequestId w = 1 \<and> live_ids w = {})
   \<and> (fst (sendRequest ok mth params s) = Inr p \<and> nextRequestId s < 2 ^ 53 \<longrightarrow>
        map_of (responsePromises (snd (sendRequest ok mth params s))) (nextRequestId s) = Some p
      \<and> nextRequestId (snd (sendRequest ok mth params s)) = nextRequestId s + 1
      \<and> nextRequestId s < nextRequestId (run pf tasks (snd (sendRequest ok mth params s))))
   \<and> nextRequestId s \<le> nextRequestId (run pf tasks s)
   \<and> (k < nextRequestId s \<and> k \<notin> live_ids s \<longrightarrow> k \<notin> live_ids (run pf tasks s))
   \<and> (new_Wallet pf provider net = Inr w \<and> nextRequestId (run pf tasks w) < 2 ^ 53 \<longrightarrow>
        (\<forall>k \<in> live_ids (run pf tasks w). k < nextRequestId (run pf tasks w)))"
proof -
  have fresh: "nextRequestId w = 1 \<and> live_ids w = {}" if "new_Wallet pf provider net = Inr w"
    using that
    by (auto simp: new_Wallet_def fresh_wallet_def live_ids_def
        split: if_splits provider.splits option.splits)
  have alloc: "map_of (responsePromises (snd (sendRequest ok mth params s))) (nextRequestId s) = Some p
      \<and> nextRequestId (snd (sendRequest ok mth params s)) = nextRequestId s + 1
      \<and> nextRequestId s < nextRequestId (run pf tasks (snd (sendRequest ok mth params s)))"
    if r: "fst (sendRequest ok mth params s) = Inr p" and small: "nextRequestId s < 2 ^ 53"
  proof -
    let ?s = "snd (sendRequest ok mth params s)"
    have e: "sendRequest ok mth params s = (Inr p, ?s)"
      using r by (cases "sendRequest ok mth params s") simp
    from sendRequest_ids [OF e]
    have t: "takes_id s ?s" and m: "map_of (responsePromises ?s) (nextRequestId s) = Some p"
      by simp_all
    from t small have n: "nextRequestId ?s = nextRequestId s + 1"
      by (simp add: takes_id_def js_increment_def)
    have "nextRequestId ?s \<le> nextRequestId (run pf tasks ?s)"
      by (rule run_counter)
    with n m show ?thesis by simp
  qed
  have gone: "k \<notin> live_ids (run pf tasks s)" if "k < nextRequestId s" and "k \<notin> live_ids s"
    using that run_live_ids [of k pf tasks s] by auto
  have below: "\<forall>k \<in> live_ids (run pf tasks w). k < nextRequestId (run pf tasks w)"
    if "new_Wallet pf provider net = Inr w" and "nextRequestId (run pf tasks w) < 2 ^ 53"
    using fresh [OF that(1)] that(2) by (intro run_ids_below_counter) simp_all
  show ?thesis
    using fresh alloc gone below run_counter [of s pf tasks] by blast
qed

theorem request_ids_witness:
  "new_Wallet example_platform (ProviderObject True) ''mainnet-beta'' = Inr example_injected
   \<and> nextRequestId example_injected = 1
   \<and> fst (sendRequest True ''connect'' [] example_injected_disconnected) = Inr 1
   \<and> nextRequestId example_injected_disconnected = 2
   \<and> nextRequestId (snd (sendRequest True ''connect'' [] example_injected_disconnected)) = 3
   \<and> 1 \<notin> live_ids example_injected_disconnected
   \<and> 1 \<notin> live_ids (run example_platform [CallConnect None True] example_injected_disconnected)
   \<and> nextRequestId (run example_platform [CallConnect None True] example_injected) < 2 ^ 53
   \<and> live_ids (run example_platform [CallConnect None True] example_injected) = {1}
   \<and> nextRequestId (run example_platform [CallConnect None True] example_injected) = 2"
proof -
  have n: "new_Wallet example_platform (ProviderObject True) ''mainnet-beta'' = Inr example_injected"
    by (simp add: new_Wallet_def isInjectedProvider_def example_injected_def)
  have f: "fst (sendRequest True ''connect'' [] example_injected_disconnected) = Inr 1"
    by (simp add: example_injected_disconnected_eq sendRequest_def new_promise_def Let_def)
  have c: "nextRequestId example_injected_disconnected = 2"
    by (simp add: example_injected_disconnected_eq)
  have l: "1 \<notin> live_ids example_injected_disconnected"
    by (simp add: example_injected_disconnected_eq live_ids_def)
  have r: "run example_platform [CallConnect None True] example_injected
      = example_injected_connecting"
    by (simp add: example_injected_connecting_def)
  have b: "nextRequestId (run example_platform [CallConnect None True] example_injected) < 2 ^ 53"
    by (simp add: r example_injected_connecting_eq)
  have v: "live_ids example_injected_connecting = {1}"
    "nextRequestId example_injected_connecting = 2"
    by (simp_all add: example_injected_connecting_eq live_ids_def)
  show ?thesis
    using request_ids_count_up_below_2_53
      [of example_platform "ProviderObject True" "''mainnet-beta''" example_injected
          True "''connect''" "[]" example_injected_disconnected 1 "[CallConnect None True]" 1]
      n f c l b v
    by (simp add: r)
qed

text \<open>
  The session that refutes C9 as stated: \<open>2 ^ 53 - 1\<close> requests bring the counter to
  \<open>2 ^ 53\<close>; from there a request gets id \<open>2 ^ 53\<close> and leaves the counter at
  \<open>2 ^ 53\<close>, and the request after it gets the same id and overwrites the entry.
\<close>

theorem counter_stops_at_2_53:
  "nextRequestId
     (run example_platform (replicate (2 ^ 53 - 1) (CallConnect None True)) example_injected)
     = 2 ^ 53
   \<and> nextRequestId example_injected_saturated = 2 ^ 53
   \<and> fst (sendRequest True ''connect'' [] example_injected_saturated) = Inr 0
   \<and> nextRequestId (snd (sendRequest True ''connect'' [] example_injected_saturated)) = 2 ^ 53
   \<and> responsePromises (snd (sendRequest True ''connect'' [] example_injected_saturated))
       = [(2 ^ 53, 0)]
   \<and> responsePromises (snd (sendRequest True ''connect'' []
         (snd (sendRequest True ''connect'' [] example_injected_saturated))))
       = [(2 ^ 53, 1)]"
proof -
  have "nextRequestId
     (run example_platform (replicate (2 ^ 53 - 1) (CallConnect None True)) example_injected)
     = min (nextRequestId example_injected + (2 ^ 53 - 1)) (2 ^ 53)"
    by (rule replicate_connect_counter) (simp_all add: example_injected_def fresh_wallet_def)
  then have reach: "nextRequestId
     (run example_platform (replicate (2 ^ 53 - 1) (CallConnect None True)) example_injected)
     = 2 ^ 53"
    by (simp add: example_injected_def fresh_wallet_def)
  have rest: "nextRequestId example_injected_saturated = 2 ^ 53
   \<and> fst (sendRequest True ''connect'' [] example_injected_saturated) = Inr 0
   \<and> nextRequestId (snd (sendRequest True ''connect'' [] example_injected_saturated)) = 2 ^ 53
   \<and> responsePromises (snd (sendRequest True ''connect'' [] example_injected_saturated))
       = [(2 ^ 53, 0)]
   \<and> responsePromises (snd (sendRequest True ''connect'' []
         (snd (sendRequest True ''connect'' [] example_injected_saturated))))
       = [(2 ^ 53, 1)]"
    by (simp add: example_injected_saturated_def example_injected_def fresh_wallet_def
        sendRequest_def new_promise_def executor_def js_increment_def Let_def)
  from reach rest show ?thesis by blast
qed

section \<open>The message listener\<close>

text \<open>
  C4. As stated (installed once, on the first \<open>connect\<close>, and removed only on full
  teardown, not by a Connected-to-Disconnected transition) the property fails:
  \<open>_handleDisconnect\<close> clears the installed flag and removes the window's listener
  every time it runs. What holds: \<open>connect\<close> installs the listener whenever the flag is
  off, on the receiver the platform test chooses and before it posts any request, and
  installs nothing while the flag is on; every run of the disconnect transition leaves
  the flag off and, when the flag was on, removes the listener from the window, so that
  a message dispatched at the window afterwards is not heard; and the transition runs on
  an admitted \<open>disconnected\<close> notification and on \<open>disconnect\<close> of a session on a
  URL provider. The statement is about the listener of the window only.
\<close>

theorem listener_follows_handler_flag:
  "(\<not> handlerAdded s \<longrightarrow>
       handlerAdded (snd (connect pf opened ok s))
     \<and> listening (snd (connect pf opened ok s))
         (if isUIWebView pf then WindowReceiver else DocumentReceiver)
     \<and> AddListeners (if isUIWebView pf then WindowReceiver else DocumentReceiver)
         \<in> set (takeWhile (\<lambda>x. \<not> is_post x) (effects_since s (snd (connect pf opened ok s)))))
   \<and> (handlerAdded s \<longrightarrow>
         AddListeners r \<notin> set (effects_since s (snd (connect pf opened ok s))))
   \<and> \<not> handlerAdded (handleDisconnect s)
   \<and> (handlerAdded s \<longrightarrow>
         \<not> window_listening (handleDisconnect s)
       \<and> RemoveListeners WindowReceiver \<in> set (effects_since s (handleDisconnect s))
       \<and> perform pf (MessageAt WindowReceiver later) (handleDisconnect s) = handleDisconnect s)
   \<and> (admits s e (message_data pf e) = Inr True
        \<and> getprop (message_data pf e) ''method'' = Some (JStr ''disconnected'') \<longrightarrow>
         snd (handleMessage pf e s) = handleDisconnect s)
   \<and> (\<not> injectedProvider s \<longrightarrow> snd (disconnect ok s) = handleDisconnect (close_popup s))"
proof -
  have msg: "snd (handleMessage pf e s) = handleDisconnect s"
    if "admits s e (message_data pf e) = Inr True"
      and "getprop (message_data pf e) ''method'' = Some (JStr ''disconnected'')"
    using that by (simp add: handleMessage_def Let_def)
  have dis: "snd (disconnect ok s) = handleDisconnect (close_popup s)" if "\<not> injectedProvider s"
    using that by (simp add: disconnect_def disconnect_resume_def)
  have deaf: "perform pf (MessageAt WindowReceiver later) (handleDisconnect s) = handleDisconnect s"
    if "handlerAdded s"
    using that by (simp add: listening_def handleDisconnect_window)
  show ?thesis
    using connect_installs_first [of s pf opened ok] connect_installs_once [of s r pf opened ok]
      handleDisconnect_removes [of s] msg dis deaf
    by simp
qed

theorem listener_witness:
  "\<not> handlerAdded example_remote
   \<and> handlerAdded (snd (connect example_platform (Some (OtherWindow 1)) True example_remote))
   \<and> window_listening (snd (connect example_platform (Some (OtherWindow 1)) True example_remote))
   \<and> handlerAdded example_remote_signing
   \<and> AddListeners WindowReceiver \<notin> set (effects_since example_remote_signing
        (snd (connect example_platform (Some (OtherWindow 2)) True example_remote_signing)))
   \<and> \<not> window_listening (handleDisconnect example_remote_signing)
   \<and> perform example_platform
        (MessageAt WindowReceiver (from_popup (connected_notification ''abc'')))
        (handleDisconnect example_remote_signing) = handleDisconnect example_remote_signing
   \<and> admits example_remote_signing (from_popup disconnected_notification)
        (message_data example_platform (from_popup disconnected_notification)) = Inr True
   \<and> snd (handleMessage example_platform (from_popup disconnected_notification)
        example_remote_signing) = handleDisconnect example_remote_signing
   \<and> \<not> injectedProvider example_remote_signing
   \<and> snd (disconnect True example_remote_signing)
       = handleDisconnect (close_popup example_remote_signing)"
proof -
  have a: "\<not> handlerAdded example_remote"
    by (simp add: example_remote_def fresh_wallet_def)
  have b: "handlerAdded example_remote_signing" "\<not> injectedProvider example_remote_signing"
    by (simp_all add: example_remote_signing_eq)
  have c: "admits example_remote_signing (from_popup disconnected_notification)
        (message_data example_platform (from_popup disconnected_notification)) = Inr True"
    "getprop (message_data example_platform (from_popup disconnected_notification)) ''method''
        = Some (JStr ''disconnected'')"
    by (simp_all add: example_remote_signing_eq admits_def message_data_def example_defs)
  have u: "isUIWebView example_platform"
    by (simp add: example_platform_def)
  show ?thesis
    using listener_follows_handler_flag
        [where s = example_remote and pf = example_platform and opened = "Some (OtherWindow 1)"
           and ok = True]
      listener_follows_handler_flag
        [where s = example_remote_signing and pf = example_platform
           and opened = "Some (OtherWindow 2)" and ok = True and r = WindowReceiver
           and later = "from_popup (connected_notification ''abc'')"
           and e = "from_popup disconnected_notification"]
      a b c u
    by (simp add: listening_def)
qed

text \<open>
  The session that refutes C4 as stated: the popup's \<open>disconnected\<close> notification
  takes a connected session to Disconnected and with it removes the listener, so that
  the \<open>connected\<close> notification that follows is not heard.
\<close>

theorem disconnected_notification_removes_listener:
  "wallet_connected example_remote_signing
   \<and> handlerAdded example_remote_signing
   \<and> window_listening example_remote_signing
   \<and> \<not> wallet_connected (perform example_platform
        (MessageAt WindowReceiver (from_popup disconnected_notification)) example_remote_signing)
   \<and> \<not> handlerAdded (perform example_platform
        (MessageAt WindowReceiver (from_popup disconnected_notification)) example_remote_signing)
   \<and> \<not> window_listening (perform example_platform
        (MessageAt WindowReceiver (from_popup disconnected_notification)) example_remote_signing)
   \<and> perform example_platform
        (MessageAt WindowReceiver (from_popup (connected_notification ''abc'')))
        (perform example_platform
          (MessageAt WindowReceiver (from_popup disconnected_notification)) example_remote_signing)
       = perform example_platform
          (MessageAt WindowReceiver (from_popup disconnected_notification)) example_remote_signing"
  by (simp add: example_remote_signing_eq example_defs model_defs)

section \<open>Disconnecting from an injected provider\<close>




end
